theory Spec2Isabelle
  imports Complex_Main
begin

section \<open>The Gemini MCP stdio server: dispatcher, tool handlers and session store\<close>

text \<open>
  The development embeds the class \<^verbatim>\<open>GeminiMCPServer\<close> (the stdio server of the
  repository). Every method of the class is one definition below, under its own name.

  What lies outside the class is a parameter of the model, collected in the record
  \<open>env\<close>: the generation backend (\<^verbatim>\<open>generateContent\<close>, \<^verbatim>\<open>sendMessage\<close> of the SDK),
  the filesystem (\<^verbatim>\<open>fs.readFile\<close>) and the builtins \<^verbatim>\<open>JSON.parse\<close> and number
  printing. Each of them returns a value or throws; a thrown value is \<open>Inl\<close>.

  Tool arguments (\<^verbatim>\<open>args: any\<close> in the source) are taken at the types the tool
  schemas declare; an absent argument (\<^verbatim>\<open>undefined\<close>) is \<open>None\<close>. Strings are
  byte strings; case conversion is the ASCII one.
\<close>

subsection \<open>JavaScript values\<close>

type_synonym number = rat

text \<open>A thrown value: an \<^verbatim>\<open>Error\<close> object with its message, or anything else.\<close>

datatype thrown = JsError string | NonError

text \<open>Truthiness of an optional string: \<^verbatim>\<open>undefined\<close> and \<^verbatim>\<open>""\<close> are falsy.\<close>

fun truthy :: "string option \<Rightarrow> bool" where
  "truthy None = False"
| "truthy (Some s) = (if s = [] then False else True)"

text \<open>The value of an optional string when it is truthy, nothing when it is falsy.\<close>

fun nonEmpty :: "string option \<Rightarrow> string option" where
  "nonEmpty None = None"
| "nonEmpty (Some s) = (if s = [] then None else Some s)"

text \<open>Truthiness of an optional number: \<^verbatim>\<open>undefined\<close> and \<^verbatim>\<open>0\<close> are falsy.\<close>

fun truthyNum :: "number option \<Rightarrow> bool" where
  "truthyNum None = False"
| "truthyNum (Some n) = (if n = 0 then False else True)"

text \<open>\<^verbatim>\<open>${x}\<close> inside a template literal: \<^verbatim>\<open>undefined\<close> prints as the word.\<close>

fun interp :: "string option \<Rightarrow> string" where
  "interp None = ''undefined''"
| "interp (Some s) = s"

text \<open>A destructuring default \<^verbatim>\<open>{x = d}\<close>: taken only when \<^verbatim>\<open>x\<close> is \<^verbatim>\<open>undefined\<close>.\<close>

fun dflt :: "'a \<Rightarrow> 'a option \<Rightarrow> 'a" where
  "dflt d None = d"
| "dflt d (Some v) = v"

text \<open>\<^verbatim>\<open>x || d\<close> on an optional string.\<close>

fun orElse :: "string option \<Rightarrow> string \<Rightarrow> string" where
  "orElse None d = d"
| "orElse (Some s) d = (if s = [] then d else s)"

text \<open>\<^verbatim>\<open>xs.join(sep)\<close> on an array of strings.\<close>

fun join :: "string \<Rightarrow> string list \<Rightarrow> string" where
  "join sep [] = []"
| "join sep [x] = x"
| "join sep (x # y # ys) = x @ sep @ join sep (y # ys)"

text \<open>\<^verbatim>\<open>s.startsWith(p)\<close>.\<close>

fun startsWith :: "string \<Rightarrow> string \<Rightarrow> bool" where
  "startsWith s [] = True"
| "startsWith [] (p # ps) = False"
| "startsWith (c # cs) (p # ps) = (if c = p then startsWith cs ps else False)"

definition toUpperChar :: "char \<Rightarrow> char" where
  "toUpperChar c =
     (if 97 \<le> (of_char c :: nat) \<and> (of_char c :: nat) \<le> 122
      then char_of ((of_char c :: nat) - 32) else c)"

definition toLowerChar :: "char \<Rightarrow> char" where
  "toLowerChar c =
     (if 65 \<le> (of_char c :: nat) \<and> (of_char c :: nat) \<le> 90
      then char_of ((of_char c :: nat) + 32) else c)"

definition toUpperCase :: "string \<Rightarrow> string" where
  "toUpperCase s = map toUpperChar s"

definition toLowerCase :: "string \<Rightarrow> string" where
  "toLowerCase s = map toLowerChar s"

text \<open>\<^verbatim>\<open>s.split('.').pop()\<close>: what follows the last dot, the whole string without one.\<close>

definition afterLastDot :: "string \<Rightarrow> string" where
  "afterLastDot s = rev (takeWhile (\<lambda>c. c \<noteq> CHR ''.'') (rev s))"

subsection \<open>Protocol messages\<close>

text \<open>
  \<^verbatim>\<open>id: string | number\<close>; a message parsed from a line may carry none
  (\<^verbatim>\<open>undefined\<close>), which the handlers copy into the response as it is.
\<close>

datatype rpc_id = IdNum int | IdStr string | IdUndefined

text \<open>One image of \<^verbatim>\<open>compare_images\<close>: \<^verbatim>\<open>{path?, base64?}\<close>.\<close>

record image =
  path :: "string option"
  base64 :: "string option"

text \<open>
  The argument bag of a tool call, with every field a handler destructures. The
  field \<^verbatim>\<open>text\<close> is \<open>text_arg\<close> here; the \<^verbatim>\<open>schema\<close> object is held as its rendering by \<^verbatim>\<open>JSON.stringify(schema, null, 2)\<close>.
\<close>

record args =
  prompt :: "string option"
  temperature :: "number option"
  maxTokens :: "number option"
  imagePath :: "string option"
  imageBase64 :: "string option"
  images :: "image list option"
  language :: "string option"
  framework :: "string option"
  code :: "string option"
  goals :: "string list option"
  sourceLanguage :: "string option"
  targetLanguage :: "string option"
  message :: "string option"
  sessionId :: "string option"
  systemPrompt :: "string option"
  text_arg :: "string option"
  style :: "string option"
  maxLength :: "number option"
  format :: "string option"
  schema :: "string option"
  content :: "string option"
  categories :: "string list option"
  level :: "string option"
  targetAudience :: "string option"

text \<open>The empty object \<^verbatim>\<open>{}\<close>.\<close>

definition emptyArgs :: args where
  "emptyArgs = \<lparr>prompt = None, temperature = None, maxTokens = None, imagePath = None,
     imageBase64 = None, images = None, language = None, framework = None, code = None,
     goals = None, sourceLanguage = None, targetLanguage = None, message = None,
     sessionId = None, systemPrompt = None, text_arg = None, style = None, maxLength = None,
     format = None, schema = None, content = None, categories = None, level = None,
     targetAudience = None\<rparr>"

text \<open>\<^verbatim>\<open>params\<close> of a request: \<^verbatim>\<open>{name, arguments}\<close>, each possibly absent.\<close>

record params =
  name :: "string option"
  arguments :: "args option"

text \<open>
  \<^verbatim>\<open>MCPRequest\<close>, with \<^verbatim>\<open>id\<close> and \<^verbatim>\<open>method\<close> as \<open>id_req\<close> and \<open>method_req\<close>. A
  \<^verbatim>\<open>method\<close> that is absent or not a string is \<open>None\<close>: calling
  \<^verbatim>\<open>startsWith\<close> on it throws.
\<close>

record request =
  id_req :: rpc_id
  method_req :: "string option"
  params :: "params option"

text \<open>
  One entry of the catalog of \<^verbatim>\<open>tools/list\<close>: name, description, and of the input
  schema the list \<^verbatim>\<open>required\<close> and the alternatives of \<^verbatim>\<open>oneOf\<close> (empty when the
  schema has none).
\<close>

datatype tool = Tool string string "string list" "string list list"

fun toolName :: "tool \<Rightarrow> string" where
  "toolName (Tool n d r alts) = n"

fun toolRequired :: "tool \<Rightarrow> string list" where
  "toolRequired (Tool n d r alts) = r"

text \<open>The \<^verbatim>\<open>result\<close> member of a response.\<close>

datatype payload =
    Content string
  | Initialized string string string
  | Tools "tool list"

record rpc_error =
  error_code :: int
  error_message :: string

text \<open>\<^verbatim>\<open>MCPResponse\<close>.\<close>

record response =
  id_resp :: rpc_id
  result :: "payload option"
  error :: "rpc_error option"

text \<open>The JSON-RPC error codes, by the names the specification uses.\<close>

definition ParseError :: int where "ParseError = - 32700"
definition MethodNotFound :: int where "MethodNotFound = - 32601"
definition InvalidParams :: int where "InvalidParams = - 32602"
definition InternalError :: int where "InternalError = - 32603"

definition errorResponse :: "rpc_id \<Rightarrow> int \<Rightarrow> string \<Rightarrow> response" where
  "errorResponse i c m =
     \<lparr>id_resp = i, result = None, error = Some \<lparr>error_code = c, error_message = m\<rparr>\<rparr>"

text \<open>The envelope \<^verbatim>\<open>{result: {content: [{type: 'text', text}]}}\<close> every tool returns.\<close>

definition textResponse :: "rpc_id \<Rightarrow> string \<Rightarrow> response" where
  "textResponse i t = \<lparr>id_resp = i, result = Some (Content t), error = None\<rparr>"

subsection \<open>The environment and the server state\<close>

text \<open>The two model objects of the constructor, \<^verbatim>\<open>this.model\<close> and \<^verbatim>\<open>this.visionModel\<close>.\<close>

datatype model_ref = TextModel | VisionModel

text \<open>
  A part of a prompt: \<^verbatim>\<open>{text}\<close>, \<^verbatim>\<open>{inlineData: {data, mimeType}}\<close>, or the
  \<^verbatim>\<open>undefined\<close> that \<^verbatim>\<open>compareImages\<close> produces for an image with neither source.
\<close>

datatype part = TextPart string | InlineData string string | UndefinedPart

text \<open>
  The argument of \<^verbatim>\<open>generateContent\<close>: the parts of the single user turn, and the
  \<^verbatim>\<open>generationConfig\<close> (temperature, maxOutputTokens) when one is passed.
\<close>

record gen_request =
  parts :: "part list"
  generationConfig :: "(number \<times> number) option"

datatype role = User | Model

datatype turn = Turn role string

text \<open>A chat session of the SDK, held as the history it was started with and has grown.\<close>

type_synonym session = "turn list"

text \<open>
  The collaborators. \<open>generateContent\<close> stands for the call together with
  \<^verbatim>\<open>result.response.text()\<close>; \<open>sendMessage\<close> likewise, and it returns the session as
  the SDK leaves it. \<open>readFile\<close> returns the file's content in base64.
  \<open>jsonParses\<close> tells whether \<^verbatim>\<open>JSON.parse\<close> accepts a text.
\<close>

record env =
  generateContent :: "model_ref \<Rightarrow> gen_request \<Rightarrow> thrown + string"
  sendMessage :: "session \<Rightarrow> string option \<Rightarrow> (thrown + string) \<times> session"
  readFile :: "string \<Rightarrow> thrown + string"
  jsonParses :: "string \<Rightarrow> bool"
  numberToString :: "number \<Rightarrow> string"

text \<open>A call that reached the backend, as the trace records it.\<close>

datatype backend_call =
    CallGenerate model_ref gen_request
  | CallSend session "string option"

text \<open>
  The state of the server: the map \<^verbatim>\<open>chatSessions\<close>, and the trace of the backend
  calls issued so far (an observer's log, which the handlers only extend).
\<close>

record server =
  chatSessions :: "string \<rightharpoonup> session"
  backendLog :: "backend_call list"

text \<open>What a handler yields: a response or a thrown value, and the state it leaves.\<close>

type_synonym outcome = "(thrown + response) \<times> server"

definition callGenerate :: "env \<Rightarrow> model_ref \<Rightarrow> gen_request \<Rightarrow> server \<Rightarrow> (thrown + string) \<times> server" where
  "callGenerate e m rq s =
     (generateContent e m rq, s\<lparr>backendLog := backendLog s @ [CallGenerate m rq]\<rparr>)"

subsection \<open>Helper methods\<close>

text \<open>
  The table \<^verbatim>\<open>mimeTypes\<close> is an object literal indexed by the extension. (An extension
  that names a member every object inherits, such as \<^verbatim>\<open>constructor\<close>, is outside the
  model.)
\<close>

definition getMimeType :: "string \<Rightarrow> string" where
  "getMimeType filePath =
     (let ext = afterLastDot (toLowerCase filePath) in
      if ext = ''jpg'' then ''image/jpeg''
      else if ext = ''jpeg'' then ''image/jpeg''
      else if ext = ''png'' then ''image/png''
      else if ext = ''gif'' then ''image/gif''
      else if ext = ''webp'' then ''image/webp''
      else ''image/jpeg'')"

subsection \<open>Text generation\<close>

definition generateText :: "env \<Rightarrow> rpc_id \<Rightarrow> args \<Rightarrow> server \<Rightarrow> outcome" where
  "generateText e i a s =
     (case nonEmpty (prompt a) of
        None \<Rightarrow> (Inr (errorResponse i (- 32602) ''Missing prompt parameter''), s)
      | Some p \<Rightarrow>
          (case callGenerate e TextModel
                  \<lparr>parts = [TextPart p],
                   generationConfig = Some (dflt (7 / 10) (temperature a), dflt 1000 (maxTokens a))\<rparr> s of
             (Inl err, s') \<Rightarrow> (Inl err, s')
           | (Inr t, s') \<Rightarrow> (Inr (textResponse i t), s')))"

subsection \<open>Image analysis\<close>

text \<open>The call to the vision model that ends \<^verbatim>\<open>analyzeImage\<close> and \<^verbatim>\<open>compareImages\<close>.\<close>

definition visionGenerate :: "env \<Rightarrow> rpc_id \<Rightarrow> part list \<Rightarrow> server \<Rightarrow> outcome" where
  "visionGenerate e i ps s =
     (case callGenerate e VisionModel \<lparr>parts = ps, generationConfig = None\<rparr> s of
        (Inl err, s') \<Rightarrow> (Inl err, s')
      | (Inr t, s') \<Rightarrow> (Inr (textResponse i t), s'))"

definition analyzeImage :: "env \<Rightarrow> rpc_id \<Rightarrow> args \<Rightarrow> server \<Rightarrow> outcome" where
  "analyzeImage e i a s =
     (let p = dflt ''Describe this image in detail'' (prompt a) in
      case nonEmpty (imagePath a) of
        Some file \<Rightarrow>
          (case readFile e file of
             Inl err \<Rightarrow> (Inl err, s)
           | Inr buf \<Rightarrow> visionGenerate e i [TextPart p, InlineData buf (getMimeType file)] s)
      | None \<Rightarrow>
          (case nonEmpty (imageBase64 a) of
             Some b \<Rightarrow> visionGenerate e i [TextPart p, InlineData b ''image/jpeg''] s
           | None \<Rightarrow> (Inr (errorResponse i (- 32602) ''Missing image data''), s)))"

definition ocrPrompt :: string where
  "ocrPrompt = ''Extract all text from this image. Provide only the extracted text without any additional commentary.''"

definition extractTextFromImage :: "env \<Rightarrow> rpc_id \<Rightarrow> args \<Rightarrow> server \<Rightarrow> outcome" where
  "extractTextFromImage e i a s = analyzeImage e i (a\<lparr>prompt := Some ocrPrompt\<rparr>) s"

text \<open>The callback that \<^verbatim>\<open>compareImages\<close> maps over the images.\<close>

definition imagePart :: "env \<Rightarrow> image \<Rightarrow> thrown + part" where
  "imagePart e img =
     (case nonEmpty (path img) of
        Some file \<Rightarrow>
          (case readFile e file of
             Inl err \<Rightarrow> Inl err
           | Inr buf \<Rightarrow> Inr (InlineData buf (getMimeType file)))
      | None \<Rightarrow>
          (case nonEmpty (base64 img) of
             Some b \<Rightarrow> Inr (InlineData b ''image/jpeg'')
           | None \<Rightarrow> Inr UndefinedPart))"

text \<open>
  \<^verbatim>\<open>Promise.all(images.map(...))\<close>: the parts in order, or the failure of a read. When
  several reads fail the promise rejects with the one that failed first in time; the
  model takes the leftmost.
\<close>

fun imageParts :: "env \<Rightarrow> image list \<Rightarrow> thrown + part list" where
  "imageParts e [] = Inr []"
| "imageParts e (img # rest) =
     (case imagePart e img of
        Inl err \<Rightarrow> Inl err
      | Inr p \<Rightarrow>
          (case imageParts e rest of
             Inl err \<Rightarrow> Inl err
           | Inr ps \<Rightarrow> Inr (p # ps)))"

definition compareImages :: "env \<Rightarrow> rpc_id \<Rightarrow> args \<Rightarrow> server \<Rightarrow> outcome" where
  "compareImages e i a s =
     (let p = dflt ''Compare these images and describe their similarities and differences'' (prompt a) in
      case images a of
        None \<Rightarrow> (Inr (errorResponse i (- 32602) ''At least 2 images required''), s)
      | Some imgs \<Rightarrow>
          if length imgs < 2 then (Inr (errorResponse i (- 32602) ''At least 2 images required''), s)
          else
            (case imageParts e imgs of
               Inl err \<Rightarrow> (Inl err, s)
             | Inr ps \<Rightarrow> visionGenerate e i (TextPart p # ps) s))"

subsection \<open>Code generation\<close>

text \<open>
  Each of the following handlers builds one prompt from a template and hands it to
  \<open>generateText\<close> as the only member of a fresh argument object.
\<close>

definition generateCode :: "env \<Rightarrow> rpc_id \<Rightarrow> args \<Rightarrow> server \<Rightarrow> outcome" where
  "generateCode e i a s =
     (let fullPrompt =
        ''Generate '' @ dflt ''python'' (language a) @ '' code''
        @ (case nonEmpty (framework a) of Some f \<Rightarrow> '' using '' @ f | None \<Rightarrow> [])
        @ '' for the following requirement:\<newline>\<newline>'' @ interp (prompt a)
        @ ''\<newline>\<newline>Provide only the code with appropriate comments. Use best practices and proper error handling.''
      in generateText e i (emptyArgs\<lparr>prompt := Some fullPrompt\<rparr>) s)"

definition explainCode :: "env \<Rightarrow> rpc_id \<Rightarrow> args \<Rightarrow> server \<Rightarrow> outcome" where
  "explainCode e i a s =
     (let fullPrompt =
        ''Explain the following''
        @ (case nonEmpty (language a) of Some l \<Rightarrow> '' '' @ l | None \<Rightarrow> [])
        @ '' code in detail:\<newline>\<newline>```'' @ orElse (language a) [] @ ''\<newline>'' @ interp (code a)
        @ ''\<newline>```\<newline>\<newline>Provide a comprehensive explanation including what it does, how it works, and any important considerations.''
      in generateText e i (emptyArgs\<lparr>prompt := Some fullPrompt\<rparr>) s)"

definition refactorCode :: "env \<Rightarrow> rpc_id \<Rightarrow> args \<Rightarrow> server \<Rightarrow> outcome" where
  "refactorCode e i a s =
     (let gs = dflt [] (goals a);
          goalsList = (if length gs > 0 then ''\<newline>Refactoring goals: '' @ join '', '' gs else []);
          fullPrompt =
            ''Refactor the following''
            @ (case nonEmpty (language a) of Some l \<Rightarrow> '' '' @ l | None \<Rightarrow> [])
            @ '' code'' @ goalsList @ '':\<newline>\<newline>```'' @ orElse (language a) [] @ ''\<newline>'' @ interp (code a)
            @ ''\<newline>```\<newline>\<newline>Provide the refactored code with explanations of the changes made.''
      in generateText e i (emptyArgs\<lparr>prompt := Some fullPrompt\<rparr>) s)"

definition convertCode :: "env \<Rightarrow> rpc_id \<Rightarrow> args \<Rightarrow> server \<Rightarrow> outcome" where
  "convertCode e i a s =
     (let fullPrompt =
        ''Convert the following code from '' @ orElse (sourceLanguage a) ''the source language''
        @ '' to '' @ interp (targetLanguage a) @ '':\<newline>\<newline>```'' @ orElse (sourceLanguage a) []
        @ ''\<newline>'' @ interp (code a)
        @ ''\<newline>```\<newline>\<newline>Provide the converted code maintaining the same functionality and using idiomatic ''
        @ interp (targetLanguage a) @ '' patterns.''
      in generateText e i (emptyArgs\<lparr>prompt := Some fullPrompt\<rparr>) s)"

subsection \<open>Content creation\<close>

definition translateText :: "env \<Rightarrow> rpc_id \<Rightarrow> args \<Rightarrow> server \<Rightarrow> outcome" where
  "translateText e i a s =
     (let fullPrompt =
        ''Translate the following text''
        @ (case nonEmpty (sourceLanguage a) of Some l \<Rightarrow> '' from '' @ l | None \<Rightarrow> [])
        @ '' to '' @ interp (targetLanguage a)
        @ ''. Provide only the translation without any additional explanation:\<newline>\<newline>''
        @ interp (text_arg a)
      in generateText e i (emptyArgs\<lparr>prompt := Some fullPrompt\<rparr>) s)"

text \<open>
  The two instruction tables are object literals indexed by an argument; a key they do
  not hold gives \<^verbatim>\<open>undefined\<close>. (Keys naming a member that every object inherits, such
  as \<^verbatim>\<open>constructor\<close>, are outside the model.)
\<close>

definition styleInstructions :: "string \<Rightarrow> string option" where
  "styleInstructions k =
     (if k = ''brief'' then Some ''Provide a brief summary in 2-3 sentences''
      else if k = ''detailed'' then Some ''Provide a detailed summary covering all main points''
      else if k = ''bullet-points'' then Some ''Provide a summary using bullet points''
      else if k = ''executive'' then Some ''Provide an executive summary suitable for business readers''
      else None)"

definition summarizeText :: "env \<Rightarrow> rpc_id \<Rightarrow> args \<Rightarrow> server \<Rightarrow> outcome" where
  "summarizeText e i a s =
     (let lengthInstruction =
            (if truthyNum (maxLength a)
             then '' in no more than '' @ numberToString e (dflt 0 (maxLength a)) @ '' words''
             else []);
          fullPrompt =
            interp (styleInstructions (dflt ''brief'' (style a))) @ lengthInstruction
            @ '' of the following text:\<newline>\<newline>'' @ interp (text_arg a)
      in generateText e i (emptyArgs\<lparr>prompt := Some fullPrompt\<rparr>) s)"

definition rewriteText :: "env \<Rightarrow> rpc_id \<Rightarrow> args \<Rightarrow> server \<Rightarrow> outcome" where
  "rewriteText e i a s =
     (let audienceInstruction =
            (case nonEmpty (targetAudience a) of Some t \<Rightarrow> '' for '' @ t | None \<Rightarrow> []);
          fullPrompt =
            ''Rewrite the following text in a '' @ interp (style a) @ '' style'' @ audienceInstruction
            @ '':\<newline>\<newline>'' @ interp (text_arg a)
      in generateText e i (emptyArgs\<lparr>prompt := Some fullPrompt\<rparr>) s)"

text \<open>
  \<^verbatim>\<open>generateStructuredData\<close> looks at the text once more when the format is
  \<^verbatim>\<open>'json'\<close> and the response carries a result: a text that \<^verbatim>\<open>JSON.parse\<close> rejects is
  put between code fences.
\<close>

definition fenced :: "string \<Rightarrow> string" where
  "fenced t = ''```json\<newline>'' @ t @ ''\<newline>```''"

definition validateJson :: "env \<Rightarrow> response \<Rightarrow> response" where
  "validateJson e r =
     (case result r of
        Some (Content t) \<Rightarrow> (if jsonParses e t then r else r\<lparr>result := Some (Content (fenced t))\<rparr>)
      | Some (Initialized v n w) \<Rightarrow> r
      | Some (Tools ts) \<Rightarrow> r
      | None \<Rightarrow> r)"

text \<open>The \<^verbatim>\<open>fullPrompt\<close> of \<^verbatim>\<open>generateStructuredData\<close>.\<close>

definition structuredDataPrompt :: "args \<Rightarrow> string" where
  "structuredDataPrompt a =
     (let fmt = dflt ''json'' (format a);
          schemaInstruction =
            (case schema a of
               Some rendered \<Rightarrow> ''\<newline>\<newline>Follow this schema:\<newline>'' @ rendered
             | None \<Rightarrow> [])
      in ''Generate '' @ toUpperCase fmt @ '' data for: '' @ interp (prompt a) @ schemaInstruction
         @ ''\<newline>\<newline>Provide only the '' @ fmt
         @ '' data without any markdown code blocks or additional explanation.'')"

definition generateStructuredData :: "env \<Rightarrow> rpc_id \<Rightarrow> args \<Rightarrow> server \<Rightarrow> outcome" where
  "generateStructuredData e i a s =
     (case generateText e i (emptyArgs\<lparr>prompt := Some (structuredDataPrompt a)\<rparr>) s of
        (Inl err, s') \<Rightarrow> (Inl err, s')
      | (Inr r, s') \<Rightarrow>
          (if dflt ''json'' (format a) = ''json'' then (Inr (validateJson e r), s')
           else (Inr r, s')))"

subsection \<open>Safety and moderation\<close>

definition checkContentSafety :: "env \<Rightarrow> rpc_id \<Rightarrow> args \<Rightarrow> server \<Rightarrow> outcome" where
  "checkContentSafety e i a s =
     (let cats = dflt [''harassment'', ''hate'', ''sexual'', ''dangerous''] (categories a);
          fullPrompt =
            ''Analyze the following content for safety issues in these categories: ''
            @ join '', '' cats @ ''. \<newline>    \<newline>Content: '' @ [CHR 0x22] @ interp (content a) @ [CHR 0x22]
            @ ''\<newline>\<newline>Provide a safety assessment with:\<newline>1. Overall safety rating (safe/caution/unsafe)''
            @ ''\<newline>2. Specific concerns for each category\<newline>3. Recommendations if any issues are found''
            @ ''\<newline>\<newline>Format as JSON.''
      in generateText e i (emptyArgs\<lparr>prompt := Some fullPrompt\<rparr>) s)"

definition levelInstructions :: "string \<Rightarrow> string option" where
  "levelInstructions k =
     (if k = ''strict'' then Some ''Remove or modify any potentially inappropriate content''
      else if k = ''moderate'' then Some ''Clean up obviously inappropriate content while preserving meaning''
      else if k = ''lenient'' then Some ''Only remove explicit inappropriate content''
      else None)"

definition moderateText :: "env \<Rightarrow> rpc_id \<Rightarrow> args \<Rightarrow> server \<Rightarrow> outcome" where
  "moderateText e i a s =
     (let fullPrompt =
        interp (levelInstructions (dflt ''moderate'' (level a)))
        @ '' in the following text. Return the cleaned version:\<newline>\<newline>'' @ interp (text_arg a)
      in generateText e i (emptyArgs\<lparr>prompt := Some fullPrompt\<rparr>) s)"

subsection \<open>Chat conversation\<close>

text \<open>The \<^verbatim>\<open>history\<close> a new session is started with.\<close>

definition seedHistory :: "string option \<Rightarrow> session" where
  "seedHistory sp =
     (case nonEmpty sp of
        Some p \<Rightarrow> [Turn User (''System: '' @ p), Turn Model ''Understood. I will follow these instructions.'']
      | None \<Rightarrow> [])"

text \<open>
  \<^verbatim>\<open>chat.sendMessage(m)\<close> on the session stored under a key: the call is traced and
  the session object, which the SDK updates in place, is the one the map holds.
\<close>

definition sessionSend :: "env \<Rightarrow> string \<Rightarrow> session \<Rightarrow> string option \<Rightarrow> server \<Rightarrow> (thrown + string) \<times> server" where
  "sessionSend e sid h m s =
     (case sendMessage e h m of
        (r, h') \<Rightarrow>
          (r, s\<lparr>chatSessions := (chatSessions s)(sid \<mapsto> h'),
                backendLog := backendLog s @ [CallSend h m]\<rparr>))"

definition chat :: "env \<Rightarrow> rpc_id \<Rightarrow> args \<Rightarrow> server \<Rightarrow> outcome" where
  "chat e i a s =
     (let sid = dflt ''default'' (sessionId a);
          s1 = (case chatSessions s sid of
                  None \<Rightarrow> s\<lparr>chatSessions := (chatSessions s)(sid \<mapsto> seedHistory (systemPrompt a))\<rparr>
                | Some h \<Rightarrow> s)
      in case chatSessions s1 sid of
           None \<Rightarrow> (Inl (JsError ''Cannot read properties of undefined''), s1)
         | Some h \<Rightarrow>
             (case sessionSend e sid h (message a) s1 of
                (Inl err, s') \<Rightarrow> (Inl err, s')
              | (Inr t, s') \<Rightarrow> (Inr (textResponse i t), s')))"

definition clearChatHistory :: "env \<Rightarrow> rpc_id \<Rightarrow> args \<Rightarrow> server \<Rightarrow> outcome" where
  "clearChatHistory e i a s =
     (let sid = dflt ''default'' (sessionId a)
      in (Inr (textResponse i (''Chat history cleared for session: '' @ sid)),
          s\<lparr>chatSessions := (chatSessions s)(sid := None)\<rparr>))"

definition summaryPrompt :: string where
  "summaryPrompt = ''Please provide a concise summary of our conversation so far.''"

definition summarizeConversation :: "env \<Rightarrow> rpc_id \<Rightarrow> args \<Rightarrow> server \<Rightarrow> outcome" where
  "summarizeConversation e i a s =
     (let sid = dflt ''default'' (sessionId a)
      in case chatSessions s sid of
           None \<Rightarrow> (Inr (errorResponse i (- 32602) ''No chat history found for this session''), s)
         | Some h \<Rightarrow>
             (case sessionSend e sid h (Some summaryPrompt) s of
                (Inl err, s') \<Rightarrow> (Inl err, s')
              | (Inr t, s') \<Rightarrow> (Inr (textResponse i t), s')))"

subsection \<open>The dispatcher\<close>

text \<open>
  The result of \<^verbatim>\<open>initialize\<close> is held as protocol version, server name and server
  version; its \<^verbatim>\<open>capabilities\<close> member is the constant \<^verbatim>\<open>{tools: {}}\<close>.
\<close>

definition handleInitialize :: "request \<Rightarrow> response" where
  "handleInitialize r =
     \<lparr>id_resp = id_req r,
      result = Some (Initialized ''2024-11-05'' ''gemini-2.5-pro-mcp-server'' ''2.5.0''),
      error = None\<rparr>"

text \<open>The catalog that \<^verbatim>\<open>handleToolsList\<close> returns, in its order.\<close>

definition toolsCatalog :: "tool list" where
  "toolsCatalog =
     [Tool ''generate_text'' ''Generate text using Google Gemini'' [''prompt''] [],
      Tool ''analyze_image'' ''Analyze an image and answer questions about it'' []
        [[''imagePath'', ''prompt''], [''imageBase64'', ''prompt'']],
      Tool ''extract_text_from_image'' ''Extract text (OCR) from an image'' []
        [[''imagePath''], [''imageBase64'']],
      Tool ''compare_images'' ''Compare multiple images and describe differences/similarities''
        [''images''] [],
      Tool ''generate_code'' ''Generate code in a specific programming language'' [''prompt''] [],
      Tool ''explain_code'' ''Analyze and explain code'' [''code''] [],
      Tool ''refactor_code'' ''Suggest improvements and refactor code'' [''code''] [],
      Tool ''convert_code'' ''Convert code from one language to another''
        [''code'', ''targetLanguage''] [],
      Tool ''chat'' ''Have a conversation with context memory'' [''message''] [],
      Tool ''clear_chat_history'' ''Clear conversation history for a session'' [] [],
      Tool ''summarize_conversation'' ''Get a summary of the conversation'' [] [],
      Tool ''translate_text'' ''Translate text between languages'' [''text'', ''targetLanguage''] [],
      Tool ''summarize_text'' ''Create a summary of text'' [''text''] [],
      Tool ''rewrite_text'' ''Rewrite text in a different style or tone'' [''text'', ''style''] [],
      Tool ''generate_structured_data'' ''Generate structured data (JSON, YAML, CSV, etc.)''
        [''prompt''] [],
      Tool ''check_content_safety'' ''Analyze content for safety issues'' [''content''] [],
      Tool ''moderate_text'' ''Filter and clean inappropriate content'' [''text''] []]"

text \<open>The bounds that the schema of \<^verbatim>\<open>compare_images\<close> puts on \<^verbatim>\<open>images\<close>.\<close>

definition imagesMinItems :: nat where "imagesMinItems = 2"
definition imagesMaxItems :: nat where "imagesMaxItems = 5"

definition handleToolsList :: "request \<Rightarrow> response" where
  "handleToolsList r = \<lparr>id_resp = id_req r, result = Some (Tools toolsCatalog), error = None\<rparr>"

text \<open>\<^verbatim>\<open>request.params?.name\<close> and \<^verbatim>\<open>request.params?.arguments || {}\<close>.\<close>

definition toolNameOf :: "request \<Rightarrow> string option" where
  "toolNameOf r = (case params r of None \<Rightarrow> None | Some p \<Rightarrow> name p)"

definition argumentsOf :: "request \<Rightarrow> args" where
  "argumentsOf r = (case params r of None \<Rightarrow> emptyArgs | Some p \<Rightarrow> dflt emptyArgs (arguments p))"

text \<open>The \<^verbatim>\<open>switch\<close> inside the \<^verbatim>\<open>try\<close> block of \<^verbatim>\<open>handleToolsCall\<close>.\<close>

definition toolSwitch :: "env \<Rightarrow> string option \<Rightarrow> rpc_id \<Rightarrow> args \<Rightarrow> server \<Rightarrow> outcome" where
  "toolSwitch e toolNm i a s =
     (if toolNm = Some ''generate_text'' then generateText e i a s
      else if toolNm = Some ''analyze_image'' then analyzeImage e i a s
      else if toolNm = Some ''extract_text_from_image'' then extractTextFromImage e i a s
      else if toolNm = Some ''compare_images'' then compareImages e i a s
      else if toolNm = Some ''generate_code'' then generateCode e i a s
      else if toolNm = Some ''explain_code'' then explainCode e i a s
      else if toolNm = Some ''refactor_code'' then refactorCode e i a s
      else if toolNm = Some ''convert_code'' then convertCode e i a s
      else if toolNm = Some ''chat'' then chat e i a s
      else if toolNm = Some ''clear_chat_history'' then clearChatHistory e i a s
      else if toolNm = Some ''summarize_conversation'' then summarizeConversation e i a s
      else if toolNm = Some ''translate_text'' then translateText e i a s
      else if toolNm = Some ''summarize_text'' then summarizeText e i a s
      else if toolNm = Some ''rewrite_text'' then rewriteText e i a s
      else if toolNm = Some ''generate_structured_data'' then generateStructuredData e i a s
      else if toolNm = Some ''check_content_safety'' then checkContentSafety e i a s
      else if toolNm = Some ''moderate_text'' then moderateText e i a s
      else (Inr (errorResponse i (- 32602) (''Unknown tool: '' @ interp toolNm)), s))"

text \<open>The message that the \<^verbatim>\<open>catch\<close> of \<^verbatim>\<open>handleToolsCall\<close> builds.\<close>

fun caughtMessage :: "thrown \<Rightarrow> string" where
  "caughtMessage (JsError m) = ''Error: '' @ m"
| "caughtMessage NonError = ''Error: Unknown error''"

definition handleToolsCall :: "env \<Rightarrow> request \<Rightarrow> server \<Rightarrow> response \<times> server" where
  "handleToolsCall e r s =
     (case toolSwitch e (toolNameOf r) (id_req r) (argumentsOf r) s of
        (Inr resp, s') \<Rightarrow> (resp, s')
      | (Inl err, s') \<Rightarrow> (errorResponse (id_req r) (- 32603) (caughtMessage err), s'))"

text \<open>
  \<^verbatim>\<open>handleRequest\<close>: the response, or \<open>None\<close> for the \<^verbatim>\<open>null\<close> that stands for "no
  reply". Without a string \<^verbatim>\<open>method\<close> the first test throws a \<^verbatim>\<open>TypeError\<close>, whose
  text the caller drops.
\<close>

definition handleRequest :: "env \<Rightarrow> request \<Rightarrow> server \<Rightarrow> (thrown + response option) \<times> server" where
  "handleRequest e r s =
     (case method_req r of
        None \<Rightarrow> (Inl (JsError ''Cannot read properties of undefined''), s)
      | Some m \<Rightarrow>
          if startsWith m ''notifications/'' then (Inr None, s)
          else if m = ''initialize'' then (Inr (Some (handleInitialize r)), s)
          else if m = ''tools/list'' then (Inr (Some (handleToolsList r)), s)
          else if m = ''tools/call'' then
            (case handleToolsCall e r s of (resp, s') \<Rightarrow> (Inr (Some resp), s'))
          else if m = ''resources/list'' then
            (Inr (Some (errorResponse (id_req r) (- 32601) ''Method not found'')), s)
          else if m = ''prompts/list'' then
            (Inr (Some (errorResponse (id_req r) (- 32601) ''Method not found'')), s)
          else (Inr (Some (errorResponse (id_req r) (- 32601) ''Method not found'')), s))"

subsection \<open>The line handler\<close>

text \<open>
  The callback of the constructor, on one input line. The argument is what
  \<^verbatim>\<open>JSON.parse\<close> made of the line, \<open>None\<close> when it threw. The result is the line
  written to the output, if any. Lines are handled one at a time here; the source
  awaits nothing between two lines, so two calls may interleave there.
\<close>

definition parseErrorResponse :: response where
  "parseErrorResponse = errorResponse (IdNum 0) (- 32700) ''Parse error''"

definition onLine :: "env \<Rightarrow> request option \<Rightarrow> server \<Rightarrow> response option \<times> server" where
  "onLine e parsed s =
     (case parsed of
        None \<Rightarrow> (Some parseErrorResponse, s)
      | Some r \<Rightarrow>
          (case handleRequest e r s of
             (Inl err, s') \<Rightarrow> (Some parseErrorResponse, s')
           | (Inr None, s') \<Rightarrow> (None, s')
           | (Inr (Some resp), s') \<Rightarrow> (Some resp, s')))"

subsection \<open>Concrete collaborators for the examples\<close>

text \<open>
  A backend that answers every request with the text \<open>t\<close>, a filesystem with no
  readable file, and a \<^verbatim>\<open>JSON.parse\<close> that accepts the empty object only (all that
  the examples below parse). No example prints a number.
\<close>

definition replyEnv :: "string \<Rightarrow> env" where
  "replyEnv t =
     \<lparr>generateContent = (\<lambda>m rq. Inr t),
      sendMessage = (\<lambda>h m. (Inr t, h @ [Turn User (interp m), Turn Model t])),
      readFile = (\<lambda>file. Inl (JsError ''ENOENT: no such file or directory'')),
      jsonParses = (\<lambda>x. x = ''{}''),
      numberToString = (\<lambda>n. ''0'')\<rparr>"

definition emptyServer :: server where
  "emptyServer = \<lparr>chatSessions = Map.empty, backendLog = []\<rparr>"

text \<open>Requests used as examples.\<close>

definition unknownToolRequest :: request where
  "unknownToolRequest = \<lparr>id_req = IdNum 7, method_req = Some ''tools/call'',
     params = Some \<lparr>name = Some ''frobnicate'', arguments = None\<rparr>\<rparr>"

definition exitMessage :: request where
  "exitMessage = \<lparr>id_req = IdUndefined, method_req = Some ''exit'', params = None\<rparr>"

definition initializedNotification :: request where
  "initializedNotification =
     \<lparr>id_req = IdUndefined, method_req = Some ''notifications/initialized'', params = None\<rparr>"

definition resourcesListRequest :: request where
  "resourcesListRequest = \<lparr>id_req = IdNum 3, method_req = Some ''resources/list'', params = None\<rparr>"

definition explainCodeRequest :: request where
  "explainCodeRequest = \<lparr>id_req = IdNum 2, method_req = Some ''tools/call'',
     params = Some \<lparr>name = Some ''explain_code'', arguments = None\<rparr>\<rparr>"

definition rewriteTextRequest :: request where
  "rewriteTextRequest = \<lparr>id_req = IdNum 6, method_req = Some ''tools/call'',
     params = Some \<lparr>name = Some ''rewrite_text'', arguments = None\<rparr>\<rparr>"

definition generateTextMissingPromptRequest :: request where
  "generateTextMissingPromptRequest = \<lparr>id_req = IdNum 8, method_req = Some ''tools/call'',
     params = Some \<lparr>name = Some ''generate_text'', arguments = None\<rparr>\<rparr>"

definition missingFileRequest :: request where
  "missingFileRequest = \<lparr>id_req = IdNum 5, method_req = Some ''tools/call'',
     params = Some \<lparr>name = Some ''analyze_image'',
       arguments = Some (emptyArgs\<lparr>imagePath := Some ''/tmp/missing.png''\<rparr>)\<rparr>\<rparr>"

definition generateTextRequest :: request where
  "generateTextRequest = \<lparr>id_req = IdStr ''a'', method_req = Some ''tools/call'',
     params = Some \<lparr>name = Some ''generate_text'',
       arguments = Some (emptyArgs\<lparr>prompt := Some ''hello''\<rparr>)\<rparr>\<rparr>"

text \<open>An image given inline, and an argument object with six of them.\<close>

definition inlineImage :: image where
  "inlineImage = \<lparr>path = None, base64 = Some ''AAAA''\<rparr>"

definition sixImagesArgs :: args where
  "sixImagesArgs = emptyArgs\<lparr>images :=
     Some [inlineImage, inlineImage, inlineImage, inlineImage, inlineImage, inlineImage]\<rparr>"

text \<open>Collaborators that all throw the same value.\<close>

definition failingEnv :: "thrown \<Rightarrow> env" where
  "failingEnv err =
     \<lparr>generateContent = (\<lambda>m rq. Inl err),
      sendMessage = (\<lambda>h m. (Inl err, h)),
      readFile = (\<lambda>file. Inl err),
      jsonParses = (\<lambda>x. x = ''{}''),
      numberToString = (\<lambda>n. ''0'')\<rparr>"

text \<open>Argument objects of the examples, and the state after a first \<^verbatim>\<open>chat\<close> on \<^verbatim>\<open>s1\<close>.\<close>

definition jsonDataArgs :: args where
  "jsonDataArgs = emptyArgs\<lparr>prompt := Some ''three users'', format := Some ''json''\<rparr>"

definition yamlDataArgs :: args where
  "yamlDataArgs = emptyArgs\<lparr>prompt := Some ''three users'', format := Some ''yaml''\<rparr>"

definition hiArgs :: args where
  "hiArgs = emptyArgs\<lparr>message := Some ''hi'', sessionId := Some ''s1''\<rparr>"

definition s1Args :: args where
  "s1Args = emptyArgs\<lparr>sessionId := Some ''s1''\<rparr>"

definition unknownArgs :: args where
  "unknownArgs = emptyArgs\<lparr>sessionId := Some ''unknown''\<rparr>"

definition pirateArgs :: args where
  "pirateArgs = emptyArgs\<lparr>message := Some ''hi'', sessionId := Some ''s1'',
     systemPrompt := Some ''Talk like a pirate''\<rparr>"

definition afterHi :: server where
  "afterHi = \<lparr>chatSessions = [''s1'' \<mapsto> [Turn User ''hi'', Turn Model ''hello'']],
      backendLog = [CallSend [] (Some ''hi'')]\<rparr>"

subsection \<open>Vocabulary of the properties\<close>

text \<open>A response is an \<open>InvalidParams\<close> error.\<close>

definition isInvalidParams :: "response \<Rightarrow> bool" where
  "isInvalidParams r = (map_option error_code (error r) = Some InvalidParams)"

text \<open>
  The tools whose schema declares required fields and whose handler tests none of them:
  the ten handlers that fill a template, and \<^verbatim>\<open>chat\<close>. No call of these tools is
  answered with \<open>InvalidParams\<close> (lemma \<open>handleToolsCall_unvalidated\<close> below).
\<close>

definition unvalidatedTools :: "string list" where
  "unvalidatedTools =
     [''generate_code'', ''explain_code'', ''refactor_code'', ''convert_code'', ''chat'',
      ''translate_text'', ''summarize_text'', ''rewrite_text'', ''generate_structured_data'',
      ''check_content_safety'', ''moderate_text'']"

text \<open>The key a chat handler works on: \<^verbatim>\<open>const { sessionId = 'default' } = args\<close>.\<close>

definition sessionKey :: "args \<Rightarrow> string" where
  "sessionKey a = dflt ''default'' (sessionId a)"

section \<open>Properties\<close>

subsection \<open>Unknown tools\<close>

lemma toolsCatalog_names:
  "map toolName toolsCatalog =
     [''generate_text'', ''analyze_image'', ''extract_text_from_image'', ''compare_images'',
      ''generate_code'', ''explain_code'', ''refactor_code'', ''convert_code'', ''chat'',
      ''clear_chat_history'', ''summarize_conversation'', ''translate_text'', ''summarize_text'',
      ''rewrite_text'', ''generate_structured_data'', ''check_content_safety'', ''moderate_text'']"
  by (simp add: toolsCatalog_def)

lemma toolsCatalog_length: "length toolsCatalog = 17"
  by (simp add: toolsCatalog_def)

text \<open>
  Claim C1, as the code has it. A \<^verbatim>\<open>tools/call\<close> request whose tool name is none of
  the names of the catalog is answered with an error envelope that carries the code
  \<open>InvalidParams\<close> (-32602) and the message \<^verbatim>\<open>Unknown tool: \<close> followed by the name; the
  state is left as it was.
\<close>

theorem unknown_tool_invalid_params:
  assumes "toolNameOf r = Some n" and "n \<notin> set (map toolName toolsCatalog)"
  shows "handleToolsCall e r s = (errorResponse (id_req r) InvalidParams (''Unknown tool: '' @ n), s)"
  using assms
  by (simp add: handleToolsCall_def toolSwitch_def toolsCatalog_def InvalidParams_def)

text \<open>The theorem at the unknown name \<^verbatim>\<open>frobnicate\<close>.\<close>

theorem unknown_tool_invalid_params_witness:
  "handleToolsCall (replyEnv ''ok'') unknownToolRequest emptyServer
     = (errorResponse (IdNum 7) InvalidParams ''Unknown tool: frobnicate'', emptyServer)"
  using unknown_tool_invalid_params
    [of unknownToolRequest "''frobnicate''" "replyEnv ''ok''" emptyServer]
  by (simp add: unknownToolRequest_def toolNameOf_def toolsCatalog_def)

text \<open>
  Claim C1 as stated asks for the code \<open>MethodNotFound\<close> (-32601). For the unknown name
  \<^verbatim>\<open>frobnicate\<close> the code of the envelope is -32602.
\<close>

theorem unknown_tool_counterexample:
  "map_option error_code
     (error (fst (handleToolsCall (replyEnv ''ok'') unknownToolRequest emptyServer)))
     = Some (- 32602)
   \<and> MethodNotFound = - 32601"
  by (simp add: handleToolsCall_def toolSwitch_def unknownToolRequest_def toolNameOf_def
      errorResponse_def MethodNotFound_def)

subsection \<open>Notifications\<close>

text \<open>
  Claim C2, as the code has it. A parsed message whose method begins with
  \<^verbatim>\<open>notifications/\<close> produces no output line and leaves the state as it was, whatever
  its identifier and parameters are.
\<close>

theorem notification_prefix_no_output:
  assumes "method_req r = Some m" and "startsWith m ''notifications/''"
  shows "onLine e (Some r) s = (None, s)"
  using assms by (simp add: onLine_def handleRequest_def)

text \<open>The theorem at \<^verbatim>\<open>notifications/initialized\<close>.\<close>

theorem notification_prefix_no_output_witness:
  "onLine (replyEnv ''ok'') (Some initializedNotification) emptyServer = (None, emptyServer)"
  using notification_prefix_no_output
    [of initializedNotification "''notifications/initialized''" "replyEnv ''ok''" emptyServer]
  by (simp add: initializedNotification_def)

text \<open>
  Claim C2 as stated also covers the bare method \<^verbatim>\<open>exit\<close>. That method takes the
  default branch of \<^verbatim>\<open>handleRequest\<close>, and the line handler writes the error envelope.
\<close>

theorem exit_output_counterexample:
  "fst (onLine (replyEnv ''ok'') (Some exitMessage) emptyServer)
     = Some (errorResponse IdUndefined (- 32601) ''Method not found'')"
  by (simp add: onLine_def handleRequest_def exitMessage_def)

subsection \<open>Unsupported discovery methods\<close>

lemma handleRequest_resources_list:
  "method_req r = Some ''resources/list'' \<Longrightarrow>
   handleRequest e r s = (Inr (Some (errorResponse (id_req r) (- 32601) ''Method not found'')), s)"
  by (simp add: handleRequest_def)

lemma handleRequest_prompts_list:
  "method_req r = Some ''prompts/list'' \<Longrightarrow>
   handleRequest e r s = (Inr (Some (errorResponse (id_req r) (- 32601) ''Method not found'')), s)"
  by (simp add: handleRequest_def)

text \<open>
  Claim C6. A request with method \<^verbatim>\<open>resources/list\<close> or \<^verbatim>\<open>prompts/list\<close> is answered
  with the error envelope of code \<open>MethodNotFound\<close>, which is the line written; the
  envelope has no \<^verbatim>\<open>result\<close> member, so it is not a success with an empty list.
\<close>

theorem unsupported_discovery_method_not_found:
  assumes "method_req r = Some m" and "m = ''resources/list'' \<or> m = ''prompts/list''"
  shows "handleRequest e r s
           = (Inr (Some (errorResponse (id_req r) MethodNotFound ''Method not found'')), s)
         \<and> onLine e (Some r) s
           = (Some (errorResponse (id_req r) MethodNotFound ''Method not found''), s)
         \<and> result (errorResponse (id_req r) MethodNotFound ''Method not found'') = None"
proof -
  have h: "handleRequest e r s
             = (Inr (Some (errorResponse (id_req r) MethodNotFound ''Method not found'')), s)"
    using assms handleRequest_resources_list [of r e s] handleRequest_prompts_list [of r e s]
    unfolding MethodNotFound_def by blast
  have "onLine e (Some r) s
          = (Some (errorResponse (id_req r) MethodNotFound ''Method not found''), s)"
    by (simp add: onLine_def h)
  moreover have "result (errorResponse (id_req r) MethodNotFound ''Method not found'') = None"
    by (simp add: errorResponse_def)
  ultimately show ?thesis using h by simp
qed

text \<open>The theorem at a \<^verbatim>\<open>resources/list\<close> request.\<close>

theorem unsupported_discovery_method_not_found_witness:
  "onLine (replyEnv ''ok'') (Some resourcesListRequest) emptyServer
     = (Some (errorResponse (IdNum 3) MethodNotFound ''Method not found''), emptyServer)"
  using unsupported_discovery_method_not_found
    [of resourcesListRequest "''resources/list''" "replyEnv ''ok''" emptyServer]
  by (simp add: resourcesListRequest_def)

subsection \<open>The number of images to compare\<close>

lemma compareImages_too_few:
  assumes "images a = Some imgs" and "length imgs < imagesMinItems"
  shows "compareImages e i a s = (Inr (errorResponse i InvalidParams ''At least 2 images required''), s)"
  using assms by (simp add: compareImages_def imagesMinItems_def InvalidParams_def)

lemma compareImages_absent:
  assumes "images a = None"
  shows "compareImages e i a s = (Inr (errorResponse i InvalidParams ''At least 2 images required''), s)"
  using assms by (simp add: compareImages_def InvalidParams_def)

text \<open>
  Claim C3 asks that \<^verbatim>\<open>compare_images\<close> answer \<open>InvalidParams\<close> below two and above
  five images. The handler tests the lower bound only (the two lemmas above). With six
  inline images, one above the \<^verbatim>\<open>maxItems\<close> of the tool's own schema, the call goes to
  the vision model and its text comes back as a success.
\<close>

theorem compare_images_six_accepted:
  "fst (compareImages (replyEnv ''same'') (IdNum 1) sixImagesArgs emptyServer)
     = Inr (textResponse (IdNum 1) ''same'')
   \<and> images sixImagesArgs
     = Some [inlineImage, inlineImage, inlineImage, inlineImage, inlineImage, inlineImage]
   \<and> imagesMaxItems = 5"
  by (simp add: compareImages_def sixImagesArgs_def emptyArgs_def imagePart_def inlineImage_def
      visionGenerate_def callGenerate_def replyEnv_def imagesMaxItems_def)

subsection \<open>Required arguments\<close>

lemma generateText_given_prompt:
  assumes "p \<noteq> []"
  shows "(\<exists>err. fst (generateText e i (emptyArgs\<lparr>prompt := Some p\<rparr>) s) = Inl err)
         \<or> (\<exists>t. fst (generateText e i (emptyArgs\<lparr>prompt := Some p\<rparr>) s) = Inr (textResponse i t))"
  using assms by (auto simp add: generateText_def split: prod.splits sum.splits)

text \<open>Each template begins or ends with fixed text, so its prompt is never empty.\<close>

lemma generateCode_outcome:
  "(\<exists>err. fst (generateCode e i a s) = Inl err) \<or> (\<exists>t. fst (generateCode e i a s) = Inr (textResponse i t))"
  unfolding generateCode_def Let_def by (rule generateText_given_prompt) simp

lemma explainCode_outcome:
  "(\<exists>err. fst (explainCode e i a s) = Inl err) \<or> (\<exists>t. fst (explainCode e i a s) = Inr (textResponse i t))"
  unfolding explainCode_def Let_def by (rule generateText_given_prompt) simp

lemma refactorCode_outcome:
  "(\<exists>err. fst (refactorCode e i a s) = Inl err) \<or> (\<exists>t. fst (refactorCode e i a s) = Inr (textResponse i t))"
  unfolding refactorCode_def Let_def by (rule generateText_given_prompt) simp

lemma convertCode_outcome:
  "(\<exists>err. fst (convertCode e i a s) = Inl err) \<or> (\<exists>t. fst (convertCode e i a s) = Inr (textResponse i t))"
  unfolding convertCode_def Let_def by (rule generateText_given_prompt) simp

lemma translateText_outcome:
  "(\<exists>err. fst (translateText e i a s) = Inl err) \<or> (\<exists>t. fst (translateText e i a s) = Inr (textResponse i t))"
  unfolding translateText_def Let_def by (rule generateText_given_prompt) simp

lemma summarizeText_outcome:
  "(\<exists>err. fst (summarizeText e i a s) = Inl err) \<or> (\<exists>t. fst (summarizeText e i a s) = Inr (textResponse i t))"
  unfolding summarizeText_def Let_def by (rule generateText_given_prompt) simp

lemma rewriteText_outcome:
  "(\<exists>err. fst (rewriteText e i a s) = Inl err) \<or> (\<exists>t. fst (rewriteText e i a s) = Inr (textResponse i t))"
  unfolding rewriteText_def Let_def by (rule generateText_given_prompt) simp

lemma checkContentSafety_outcome:
  "(\<exists>err. fst (checkContentSafety e i a s) = Inl err) \<or> (\<exists>t. fst (checkContentSafety e i a s) = Inr (textResponse i t))"
  unfolding checkContentSafety_def Let_def by (rule generateText_given_prompt) simp

lemma moderateText_outcome:
  "(\<exists>err. fst (moderateText e i a s) = Inl err) \<or> (\<exists>t. fst (moderateText e i a s) = Inr (textResponse i t))"
  unfolding moderateText_def Let_def by (rule generateText_given_prompt) simp

lemma structuredDataPrompt_nonempty: "structuredDataPrompt a \<noteq> []"
  by (simp add: structuredDataPrompt_def Let_def)

lemma validateJson_text:
  "\<exists>t'. validateJson e (textResponse i t) = textResponse i t'"
  by (simp add: validateJson_def textResponse_def)

lemma generateStructuredData_outcome:
  "(\<exists>err. fst (generateStructuredData e i a s) = Inl err)
   \<or> (\<exists>t. fst (generateStructuredData e i a s) = Inr (textResponse i t))"
proof -
  obtain out s' where g: "generateText e i (emptyArgs\<lparr>prompt := Some (structuredDataPrompt a)\<rparr>) s = (out, s')"
    by (cases "generateText e i (emptyArgs\<lparr>prompt := Some (structuredDataPrompt a)\<rparr>) s")
  from generateText_given_prompt [OF structuredDataPrompt_nonempty, of e i a s] g
  consider err where "out = Inl err" | t where "out = Inr (textResponse i t)" by auto
  then show ?thesis
  proof cases
    case 1 then show ?thesis using g by (simp add: generateStructuredData_def)
  next
    case 2 then show ?thesis using g validateJson_text [of e i t]
      by (auto simp add: generateStructuredData_def)
  qed
qed

lemma chat_outcome:
  "(\<exists>err. fst (chat e i a s) = Inl err) \<or> (\<exists>t. fst (chat e i a s) = Inr (textResponse i t))"
  by (auto simp add: chat_def Let_def sessionSend_def split: option.splits prod.splits sum.splits)

lemma toolSwitch_unvalidated:
  assumes "n \<in> set unvalidatedTools"
  shows "(\<exists>err. fst (toolSwitch e (Some n) i a s) = Inl err)
         \<or> (\<exists>t. fst (toolSwitch e (Some n) i a s) = Inr (textResponse i t))"
proof -
  from assms consider
      "n = ''generate_code''" | "n = ''explain_code''" | "n = ''refactor_code''"
    | "n = ''convert_code''" | "n = ''chat''" | "n = ''translate_text''"
    | "n = ''summarize_text''" | "n = ''rewrite_text''" | "n = ''generate_structured_data''"
    | "n = ''check_content_safety''" | "n = ''moderate_text''"
    unfolding unvalidatedTools_def by fastforce
  then show ?thesis
  proof cases
    case 1 then show ?thesis using generateCode_outcome [of e i a s] by (simp add: toolSwitch_def)
  next
    case 2 then show ?thesis using explainCode_outcome [of e i a s] by (simp add: toolSwitch_def)
  next
    case 3 then show ?thesis using refactorCode_outcome [of e i a s] by (simp add: toolSwitch_def)
  next
    case 4 then show ?thesis using convertCode_outcome [of e i a s] by (simp add: toolSwitch_def)
  next
    case 5 then show ?thesis using chat_outcome [of e i a s] by (simp add: toolSwitch_def)
  next
    case 6 then show ?thesis using translateText_outcome [of e i a s] by (simp add: toolSwitch_def)
  next
    case 7 then show ?thesis using summarizeText_outcome [of e i a s] by (simp add: toolSwitch_def)
  next
    case 8 then show ?thesis using rewriteText_outcome [of e i a s] by (simp add: toolSwitch_def)
  next
    case 9 then show ?thesis using generateStructuredData_outcome [of e i a s]
      by (simp add: toolSwitch_def)
  next
    case 10 then show ?thesis using checkContentSafety_outcome [of e i a s]
      by (simp add: toolSwitch_def)
  next
    case 11 then show ?thesis using moderateText_outcome [of e i a s] by (simp add: toolSwitch_def)
  qed
qed

lemma handleToolsCall_unvalidated:
  assumes "toolNameOf r = Some n" and "n \<in> set unvalidatedTools"
  shows "\<not> isInvalidParams (fst (handleToolsCall e r s))"
proof -
  obtain out s' where sw: "toolSwitch e (Some n) (id_req r) (argumentsOf r) s = (out, s')"
    by (cases "toolSwitch e (Some n) (id_req r) (argumentsOf r) s")
  from toolSwitch_unvalidated [OF assms(2), of e "id_req r" "argumentsOf r" s] sw
  consider err where "out = Inl err" | t where "out = Inr (textResponse (id_req r) t)" by auto
  then show ?thesis
  proof cases
    case 1 then show ?thesis using sw assms(1)
      by (simp add: handleToolsCall_def isInvalidParams_def errorResponse_def InvalidParams_def)
  next
    case 2 then show ?thesis using sw assms(1)
      by (simp add: handleToolsCall_def isInvalidParams_def textResponse_def)
  qed
qed

lemma generateText_missing_prompt:
  assumes "nonEmpty (prompt a) = None"
  shows "generateText e i a s = (Inr (errorResponse i InvalidParams ''Missing prompt parameter''), s)"
  using assms by (simp add: generateText_def InvalidParams_def)

lemma analyzeImage_missing_image:
  assumes "nonEmpty (imagePath a) = None" and "nonEmpty (imageBase64 a) = None"
  shows "analyzeImage e i a s = (Inr (errorResponse i InvalidParams ''Missing image data''), s)"
  using assms by (simp add: analyzeImage_def InvalidParams_def)

text \<open>
  The handlers that test an argument themselves: \<^verbatim>\<open>generate_text\<close> when \<^verbatim>\<open>prompt\<close> is
  absent or empty, \<^verbatim>\<open>analyze_image\<close> (and \<^verbatim>\<open>extract_text_from_image\<close> through it) when
  neither image source is given, \<^verbatim>\<open>compare_images\<close> when \<^verbatim>\<open>images\<close> is absent. Each
  answers \<open>InvalidParams\<close> and calls nothing.
\<close>

lemma validating_handlers:
  "(nonEmpty (prompt a) = None \<longrightarrow>
      generateText e i a s = (Inr (errorResponse i InvalidParams ''Missing prompt parameter''), s))
   \<and> (nonEmpty (imagePath a) = None \<and> nonEmpty (imageBase64 a) = None \<longrightarrow>
      analyzeImage e i a s = (Inr (errorResponse i InvalidParams ''Missing image data''), s)
      \<and> extractTextFromImage e i a s = (Inr (errorResponse i InvalidParams ''Missing image data''), s))
   \<and> (images a = None \<longrightarrow>
      compareImages e i a s = (Inr (errorResponse i InvalidParams ''At least 2 images required''), s))"
proof (intro conjI impI)
  assume "nonEmpty (prompt a) = None"
  then show "generateText e i a s = (Inr (errorResponse i InvalidParams ''Missing prompt parameter''), s)"
    by (rule generateText_missing_prompt)
next
  assume h: "nonEmpty (imagePath a) = None \<and> nonEmpty (imageBase64 a) = None"
  then show "analyzeImage e i a s = (Inr (errorResponse i InvalidParams ''Missing image data''), s)"
    by (simp add: analyzeImage_missing_image)
  from h show "extractTextFromImage e i a s = (Inr (errorResponse i InvalidParams ''Missing image data''), s)"
    unfolding extractTextFromImage_def by (simp add: analyzeImage_missing_image)
next
  assume "images a = None"
  then show "compareImages e i a s = (Inr (errorResponse i InvalidParams ''At least 2 images required''), s)"
    by (rule compareImages_absent)
qed

text \<open>
  Claim C4 asks that every handler answer \<open>InvalidParams\<close> when an argument that its
  schema declares required is absent. The catalog declares \<^verbatim>\<open>code\<close> required for
  \<^verbatim>\<open>explain_code\<close>, and \<^verbatim>\<open>text\<close> and \<^verbatim>\<open>style\<close> for \<^verbatim>\<open>rewrite_text\<close>; neither handler
  tests them. A call of either tool without arguments prints \<^verbatim>\<open>undefined\<close> into the
  prompt, sends it to the backend (the trace shows the request) and returns the
  backend's text as a success, where \<^verbatim>\<open>generate_text\<close> refuses a call without its
  \<^verbatim>\<open>prompt\<close>.
\<close>

theorem required_argument_absent_accepted:
  "toolsCatalog ! 5 = Tool ''explain_code'' ''Analyze and explain code'' [''code''] []
   \<and> code (argumentsOf explainCodeRequest) = None
   \<and> handleToolsCall (replyEnv ''It prints.'') explainCodeRequest emptyServer
     = (textResponse (IdNum 2) ''It prints.'',
        emptyServer\<lparr>backendLog :=
          [CallGenerate TextModel
             \<lparr>parts = [TextPart (''Explain the following code in detail:\<newline>\<newline>```\<newline>undefined\<newline>```\<newline>\<newline>''
                @ ''Provide a comprehensive explanation including what it does, how it works, and any important considerations.'')],
              generationConfig = Some (7 / 10, 1000)\<rparr>]\<rparr>)
   \<and> toolsCatalog ! 13
     = Tool ''rewrite_text'' ''Rewrite text in a different style or tone'' [''text'', ''style''] []
   \<and> text_arg (argumentsOf rewriteTextRequest) = None
   \<and> style (argumentsOf rewriteTextRequest) = None
   \<and> handleToolsCall (replyEnv ''It prints.'') rewriteTextRequest emptyServer
     = (textResponse (IdNum 6) ''It prints.'',
        emptyServer\<lparr>backendLog :=
          [CallGenerate TextModel
             \<lparr>parts = [TextPart ''Rewrite the following text in a undefined style:\<newline>\<newline>undefined''],
              generationConfig = Some (7 / 10, 1000)\<rparr>]\<rparr>)
   \<and> fst (handleToolsCall (replyEnv ''It prints.'') generateTextMissingPromptRequest emptyServer)
     = errorResponse (IdNum 8) InvalidParams ''Missing prompt parameter''"
proof -
  have a: "toolsCatalog ! 5 = Tool ''explain_code'' ''Analyze and explain code'' [''code''] []"
    by (simp add: toolsCatalog_def)
  have b: "code (argumentsOf explainCodeRequest) = None"
    by (simp add: argumentsOf_def explainCodeRequest_def emptyArgs_def)
  have c: "handleToolsCall (replyEnv ''It prints.'') explainCodeRequest emptyServer
     = (textResponse (IdNum 2) ''It prints.'',
        emptyServer\<lparr>backendLog :=
          [CallGenerate TextModel
             \<lparr>parts = [TextPart (''Explain the following code in detail:\<newline>\<newline>```\<newline>undefined\<newline>```\<newline>\<newline>''
                @ ''Provide a comprehensive explanation including what it does, how it works, and any important considerations.'')],
              generationConfig = Some (7 / 10, 1000)\<rparr>]\<rparr>)"
    by (simp add: handleToolsCall_def toolSwitch_def explainCodeRequest_def
        toolNameOf_def argumentsOf_def explainCode_def generateText_def callGenerate_def
        emptyArgs_def replyEnv_def emptyServer_def)
  have d: "toolsCatalog ! 13
     = Tool ''rewrite_text'' ''Rewrite text in a different style or tone'' [''text'', ''style''] []"
    by (simp add: toolsCatalog_def)
  have f: "text_arg (argumentsOf rewriteTextRequest) = None"
    "style (argumentsOf rewriteTextRequest) = None"
    by (simp_all add: argumentsOf_def rewriteTextRequest_def emptyArgs_def)
  have g: "handleToolsCall (replyEnv ''It prints.'') rewriteTextRequest emptyServer
     = (textResponse (IdNum 6) ''It prints.'',
        emptyServer\<lparr>backendLog :=
          [CallGenerate TextModel
             \<lparr>parts = [TextPart ''Rewrite the following text in a undefined style:\<newline>\<newline>undefined''],
              generationConfig = Some (7 / 10, 1000)\<rparr>]\<rparr>)"
    by (simp add: handleToolsCall_def toolSwitch_def rewriteTextRequest_def
        toolNameOf_def argumentsOf_def rewriteText_def generateText_def callGenerate_def
        emptyArgs_def replyEnv_def emptyServer_def)
  have h: "fst (handleToolsCall (replyEnv ''It prints.'') generateTextMissingPromptRequest emptyServer)
     = errorResponse (IdNum 8) InvalidParams ''Missing prompt parameter''"
    by (simp add: handleToolsCall_def toolSwitch_def generateTextMissingPromptRequest_def
        toolNameOf_def argumentsOf_def generateText_def emptyArgs_def InvalidParams_def)
  show ?thesis using a b c d f g h by simp
qed

subsection \<open>Failures of a handler\<close>

lemma handleToolsCall_thrown:
  assumes "toolSwitch e (toolNameOf r) (id_req r) (argumentsOf r) s = (Inl err, s')"
  shows "handleToolsCall e r s = (errorResponse (id_req r) InternalError (caughtMessage err), s')"
  using assms by (simp add: handleToolsCall_def InternalError_def)

lemma analyzeImage_read_failure:
  assumes "nonEmpty (imagePath a) = Some file" and "readFile e file = Inl err"
  shows "analyzeImage e i a s = (Inl err, s)"
  using assms by (simp add: analyzeImage_def)

lemma generateText_backend_failure:
  assumes "nonEmpty (prompt a) = Some p"
    and "generateContent e TextModel
           \<lparr>parts = [TextPart p],
            generationConfig = Some (dflt (7 / 10) (temperature a), dflt 1000 (maxTokens a))\<rparr>
         = Inl err"
  shows "fst (generateText e i a s) = Inl err"
  using assms by (simp add: generateText_def callGenerate_def)

text \<open>
  Claim C5, as the code has it. When the handler of a \<^verbatim>\<open>tools/call\<close> throws, the
  dispatcher answers with an error envelope of code \<open>InternalError\<close> whose message is
  \<^verbatim>\<open>Error: \<close> followed by the message of the thrown \<^verbatim>\<open>Error\<close>, and
  \<^verbatim>\<open>Error: Unknown error\<close> when the thrown value is not an \<^verbatim>\<open>Error\<close>. So it is for a
  file that \<^verbatim>\<open>analyze_image\<close> cannot read and for a backend failure in
  \<^verbatim>\<open>generate_text\<close>.
\<close>

theorem handler_failure_internal_error:
  "(toolSwitch e (toolNameOf r) (id_req r) (argumentsOf r) s = (Inl (JsError m), s') \<longrightarrow>
      handleToolsCall e r s = (errorResponse (id_req r) InternalError (''Error: '' @ m), s'))
   \<and> (toolSwitch e (toolNameOf r) (id_req r) (argumentsOf r) s = (Inl NonError, s') \<longrightarrow>
      handleToolsCall e r s = (errorResponse (id_req r) InternalError ''Error: Unknown error'', s'))
   \<and> (toolNameOf r = Some ''analyze_image'' \<and> nonEmpty (imagePath (argumentsOf r)) = Some file
        \<and> readFile e file = Inl (JsError m) \<longrightarrow>
      handleToolsCall e r s = (errorResponse (id_req r) InternalError (''Error: '' @ m), s))
   \<and> (toolNameOf r = Some ''generate_text'' \<and> nonEmpty (prompt (argumentsOf r)) = Some p
        \<and> generateContent e TextModel
             \<lparr>parts = [TextPart p],
              generationConfig = Some (dflt (7 / 10) (temperature (argumentsOf r)),
                                       dflt 1000 (maxTokens (argumentsOf r)))\<rparr>
           = Inl (JsError m) \<longrightarrow>
      fst (handleToolsCall e r s) = errorResponse (id_req r) InternalError (''Error: '' @ m))"
proof (intro conjI impI)
  assume "toolSwitch e (toolNameOf r) (id_req r) (argumentsOf r) s = (Inl (JsError m), s')"
  then show "handleToolsCall e r s = (errorResponse (id_req r) InternalError (''Error: '' @ m), s')"
    using handleToolsCall_thrown [of e r s "JsError m" s'] by simp
next
  assume "toolSwitch e (toolNameOf r) (id_req r) (argumentsOf r) s = (Inl NonError, s')"
  then show "handleToolsCall e r s
               = (errorResponse (id_req r) InternalError ''Error: Unknown error'', s')"
    using handleToolsCall_thrown [of e r s NonError s'] by simp
next
  assume a: "toolNameOf r = Some ''analyze_image'' \<and> nonEmpty (imagePath (argumentsOf r)) = Some file
        \<and> readFile e file = Inl (JsError m)"
  then have "toolSwitch e (toolNameOf r) (id_req r) (argumentsOf r) s = (Inl (JsError m), s)"
    using analyzeImage_read_failure [of "argumentsOf r" "file" e "JsError m" "id_req r" s]
    by (simp add: toolSwitch_def)
  then show "handleToolsCall e r s = (errorResponse (id_req r) InternalError (''Error: '' @ m), s)"
    using handleToolsCall_thrown [of e r s "JsError m" s] by simp
next
  assume a: "toolNameOf r = Some ''generate_text'' \<and> nonEmpty (prompt (argumentsOf r)) = Some p
        \<and> generateContent e TextModel
             \<lparr>parts = [TextPart p],
              generationConfig = Some (dflt (7 / 10) (temperature (argumentsOf r)),
                                       dflt 1000 (maxTokens (argumentsOf r)))\<rparr>
           = Inl (JsError m)"
  then have "fst (toolSwitch e (toolNameOf r) (id_req r) (argumentsOf r) s) = Inl (JsError m)"
    using generateText_backend_failure [of "argumentsOf r" p e "JsError m" "id_req r" s]
    by (simp add: toolSwitch_def)
  then obtain s' where "toolSwitch e (toolNameOf r) (id_req r) (argumentsOf r) s = (Inl (JsError m), s')"
    by (cases "toolSwitch e (toolNameOf r) (id_req r) (argumentsOf r) s") simp
  then show "fst (handleToolsCall e r s) = errorResponse (id_req r) InternalError (''Error: '' @ m)"
    using handleToolsCall_thrown [of e r s "JsError m" s'] by simp
qed

text \<open>
  The theorem at an unreadable file, at a thrown value that is no \<^verbatim>\<open>Error\<close>, and at a
  backend that refuses.
\<close>

theorem handler_failure_internal_error_witness:
  "handleToolsCall (replyEnv ''ok'') missingFileRequest emptyServer
     = (errorResponse (IdNum 5) InternalError ''Error: ENOENT: no such file or directory'', emptyServer)
   \<and> handleToolsCall (failingEnv NonError) missingFileRequest emptyServer
     = (errorResponse (IdNum 5) InternalError ''Error: Unknown error'', emptyServer)
   \<and> fst (handleToolsCall (failingEnv (JsError ''quota exceeded'')) generateTextRequest emptyServer)
     = errorResponse (IdStr ''a'') InternalError ''Error: quota exceeded''"
proof -
  have sw1: "toolSwitch (failingEnv NonError) (toolNameOf missingFileRequest) (id_req missingFileRequest)
          (argumentsOf missingFileRequest) emptyServer = (Inl NonError, emptyServer)"
    by (simp add: toolSwitch_def missingFileRequest_def toolNameOf_def argumentsOf_def
        analyzeImage_def emptyArgs_def failingEnv_def)
  have a: "handleToolsCall (replyEnv ''ok'') missingFileRequest emptyServer
     = (errorResponse (IdNum 5) InternalError ''Error: ENOENT: no such file or directory'', emptyServer)"
    using handler_failure_internal_error
      [of "replyEnv ''ok''" missingFileRequest emptyServer "''ENOENT: no such file or directory''"
          emptyServer "''/tmp/missing.png''" "[]"]
    by (simp add: missingFileRequest_def toolNameOf_def argumentsOf_def emptyArgs_def replyEnv_def)
  have b: "handleToolsCall (failingEnv NonError) missingFileRequest emptyServer
     = (errorResponse (IdNum 5) InternalError ''Error: Unknown error'', emptyServer)"
    using sw1 handler_failure_internal_error
      [of "failingEnv NonError" missingFileRequest emptyServer "[]" emptyServer "[]" "[]"]
    by (simp add: missingFileRequest_def)
  have c: "fst (handleToolsCall (failingEnv (JsError ''quota exceeded'')) generateTextRequest emptyServer)
     = errorResponse (IdStr ''a'') InternalError ''Error: quota exceeded''"
    using handler_failure_internal_error
      [of "failingEnv (JsError ''quota exceeded'')" generateTextRequest emptyServer
          "''quota exceeded''" emptyServer "[]" "''hello''"]
    by (simp add: generateTextRequest_def toolNameOf_def argumentsOf_def emptyArgs_def failingEnv_def)
  show ?thesis using a b c by simp
qed

text \<open>
  Claim C5 as stated has the message equal to that of the failure. For a file that
  cannot be read, the failure says \<^verbatim>\<open>ENOENT: no such file or directory\<close> and the envelope
  says \<^verbatim>\<open>Error: ENOENT: no such file or directory\<close>.
\<close>

theorem handler_failure_verbatim_counterexample:
  "readFile (replyEnv ''ok'') ''/tmp/missing.png'' = Inl (JsError ''ENOENT: no such file or directory'')
   \<and> map_option error_message (error (fst (handleToolsCall (replyEnv ''ok'') missingFileRequest emptyServer)))
       = Some ''Error: ENOENT: no such file or directory''
   \<and> map_option error_message (error (fst (handleToolsCall (replyEnv ''ok'') missingFileRequest emptyServer)))
       \<noteq> Some ''ENOENT: no such file or directory''"
  by (simp add: handleToolsCall_def toolSwitch_def missingFileRequest_def toolNameOf_def
      argumentsOf_def analyzeImage_def emptyArgs_def replyEnv_def errorResponse_def)

subsection \<open>Structured data\<close>

lemma generateText_backend_text:
  assumes "p \<noteq> []"
    and "generateContent e TextModel \<lparr>parts = [TextPart p], generationConfig = Some (7 / 10, 1000)\<rparr> = Inr t"
  shows "fst (generateText e i (emptyArgs\<lparr>prompt := Some p\<rparr>) s) = Inr (textResponse i t)"
  using assms by (simp add: generateText_def callGenerate_def emptyArgs_def)

lemma validateJson_textResponse:
  "validateJson e (textResponse i t) = textResponse i (if jsonParses e t then t else fenced t)"
  by (simp add: validateJson_def textResponse_def)

text \<open>
  Claim C7, as the code has it. When the backend returns a text \<open>t\<close> for the prompt of
  \<^verbatim>\<open>generate_structured_data\<close>, the call is a success. Its text is \<open>t\<close> between the
  fences \<^verbatim>\<open>```json\<close> and \<^verbatim>\<open>```\<close> when the format is \<^verbatim>\<open>json\<close> (given or by default) and
  \<^verbatim>\<open>JSON.parse\<close> rejects \<open>t\<close>; in every other case, so for every other format, it is
  \<open>t\<close> itself, which is not parsed.
\<close>

theorem structured_data_lenient_json:
  assumes "generateContent e TextModel
             \<lparr>parts = [TextPart (structuredDataPrompt a)], generationConfig = Some (7 / 10, 1000)\<rparr>
           = Inr t"
  shows "fst (generateStructuredData e i a s)
           = Inr (textResponse i
                   (if dflt ''json'' (format a) = ''json'' \<and> \<not> jsonParses e t then fenced t else t))
         \<and> fenced t = ''```json\<newline>'' @ t @ ''\<newline>```''"
proof -
  obtain out s' where g: "generateText e i (emptyArgs\<lparr>prompt := Some (structuredDataPrompt a)\<rparr>) s = (out, s')"
    by (cases "generateText e i (emptyArgs\<lparr>prompt := Some (structuredDataPrompt a)\<rparr>) s")
  have "out = Inr (textResponse i t)"
    using generateText_backend_text [OF structuredDataPrompt_nonempty assms, of i s] g by simp
  then show ?thesis using g
    by (simp add: generateStructuredData_def validateJson_textResponse fenced_def)
qed

text \<open>The theorem at format \<^verbatim>\<open>json\<close> and a backend text that is not JSON.\<close>

theorem structured_data_lenient_json_witness:
  "fst (generateStructuredData (replyEnv ''Here you go: {}'') (IdNum 4) jsonDataArgs emptyServer)
     = Inr (textResponse (IdNum 4) ''```json\<newline>Here you go: {}\<newline>```'')"
  using structured_data_lenient_json
    [of "replyEnv ''Here you go: {}''" jsonDataArgs "''Here you go: {}''" "IdNum 4" emptyServer]
  by (simp add: replyEnv_def jsonDataArgs_def emptyArgs_def)

text \<open>
  Claim C7 as stated covers every structured-data format. With format \<^verbatim>\<open>yaml\<close> and a
  backend text that is not YAML (an unclosed sequence), the text comes back as it is,
  without fences.
\<close>

theorem structured_data_yaml_counterexample:
  "fst (generateStructuredData (replyEnv ''users: [ada, bob'') (IdNum 4) yamlDataArgs emptyServer)
     = Inr (textResponse (IdNum 4) ''users: [ada, bob'')
   \<and> fst (generateStructuredData (replyEnv ''users: [ada, bob'') (IdNum 4) yamlDataArgs emptyServer)
     \<noteq> Inr (textResponse (IdNum 4) (fenced ''users: [ada, bob''))"
  by (simp add: generateStructuredData_def generateText_def callGenerate_def yamlDataArgs_def
      emptyArgs_def replyEnv_def structuredDataPrompt_def textResponse_def fenced_def)

subsection \<open>Sessions\<close>

lemma summarizeConversation_no_session:
  assumes "chatSessions s (sessionKey a) = None"
  shows "summarizeConversation e i a s
           = (Inr (errorResponse i InvalidParams ''No chat history found for this session''), s)"
  using assms by (simp add: summarizeConversation_def sessionKey_def InvalidParams_def)

lemma summarizeConversation_session:
  assumes "chatSessions s (sessionKey a) = Some h"
  shows "backendLog (snd (summarizeConversation e i a s)) = backendLog s @ [CallSend h (Some summaryPrompt)]"
    and "fst (summarizeConversation e i a s)
           = (case fst (sendMessage e h (Some summaryPrompt)) of
                Inl err \<Rightarrow> Inl err
              | Inr t \<Rightarrow> Inr (textResponse i t))"
  using assms
  by (auto simp add: summarizeConversation_def sessionKey_def sessionSend_def
      split: prod.splits sum.splits)

text \<open>Whatever its outcome, \<^verbatim>\<open>chat\<close> leaves a session under its key.\<close>

lemma chat_leaves_session:
  "\<exists>h. chatSessions (snd (chat e i a s)) (sessionKey a) = Some h"
  by (auto simp add: chat_def Let_def sessionKey_def sessionSend_def
      split: option.splits prod.splits sum.splits)

text \<open>
  Claim C8. Without a session under its key, \<^verbatim>\<open>summarize_conversation\<close> answers
  \<open>InvalidParams\<close> and changes nothing. After a \<^verbatim>\<open>chat\<close> that succeeded on the same key a
  session \<open>h\<close> is there: the handler issues exactly one more backend call, the fixed
  request for a summary sent on \<open>h\<close>, and its answer is that call's outcome, a success
  carrying the backend's text when the call returns one.
\<close>

theorem summarize_conversation_round_trip:
  "(chatSessions s (sessionKey a) = None \<longrightarrow>
      summarizeConversation e i a s
        = (Inr (errorResponse i InvalidParams ''No chat history found for this session''), s))
   \<and> (chat e j c s0 = (Inr rc, s) \<and> sessionKey c = sessionKey a \<longrightarrow>
      (\<exists>h. chatSessions s (sessionKey a) = Some h
         \<and> backendLog (snd (summarizeConversation e i a s))
             = backendLog s @ [CallSend h (Some summaryPrompt)]
         \<and> fst (summarizeConversation e i a s)
             = (case fst (sendMessage e h (Some summaryPrompt)) of
                  Inl err \<Rightarrow> Inl err
                | Inr t \<Rightarrow> Inr (textResponse i t))))"
proof (intro conjI impI)
  assume "chatSessions s (sessionKey a) = None"
  then show "summarizeConversation e i a s
        = (Inr (errorResponse i InvalidParams ''No chat history found for this session''), s)"
    by (rule summarizeConversation_no_session)
next
  assume h: "chat e j c s0 = (Inr rc, s) \<and> sessionKey c = sessionKey a"
  then obtain h0 where "chatSessions s (sessionKey a) = Some h0"
    using chat_leaves_session [of e j c s0] by auto
  then show "\<exists>h. chatSessions s (sessionKey a) = Some h
         \<and> backendLog (snd (summarizeConversation e i a s))
             = backendLog s @ [CallSend h (Some summaryPrompt)]
         \<and> fst (summarizeConversation e i a s)
             = (case fst (sendMessage e h (Some summaryPrompt)) of
                  Inl err \<Rightarrow> Inl err
                | Inr t \<Rightarrow> Inr (textResponse i t))"
    using summarizeConversation_session [of s a h0 e i] by blast
qed

lemma chat_hi:
  "chat (replyEnv ''hello'') (IdNum 1) hiArgs emptyServer
     = (Inr (textResponse (IdNum 1) ''hello''),
        \<lparr>chatSessions = [''s1'' \<mapsto> [Turn User ''hi'', Turn Model ''hello'']],
         backendLog = [CallSend [] (Some ''hi'')]\<rparr>)"
  by (simp add: chat_def hiArgs_def emptyArgs_def emptyServer_def sessionSend_def replyEnv_def
      seedHistory_def)

text \<open>
  The theorem at the scenario of the specification: \<^verbatim>\<open>summarize_conversation\<close> on the
  key \<^verbatim>\<open>unknown\<close>, then \<^verbatim>\<open>chat\<close> with \<^verbatim>\<open>hi\<close> on \<^verbatim>\<open>s1\<close> followed by
  \<^verbatim>\<open>summarize_conversation\<close> on \<^verbatim>\<open>s1\<close>.
\<close>

theorem summarize_conversation_round_trip_witness:
  "summarizeConversation (replyEnv ''hello'') (IdNum 2) unknownArgs emptyServer
     = (Inr (errorResponse (IdNum 2) InvalidParams ''No chat history found for this session''), emptyServer)
   \<and> chat (replyEnv ''hello'') (IdNum 1) hiArgs emptyServer = (Inr (textResponse (IdNum 1) ''hello''), afterHi)
   \<and> fst (summarizeConversation (replyEnv ''hello'') (IdNum 2) s1Args afterHi)
       = Inr (textResponse (IdNum 2) ''hello'')
   \<and> backendLog (snd (summarizeConversation (replyEnv ''hello'') (IdNum 2) s1Args afterHi))
       = [CallSend [] (Some ''hi''),
          CallSend [Turn User ''hi'', Turn Model ''hello''] (Some summaryPrompt)]"
proof -
  have c: "chat (replyEnv ''hello'') (IdNum 1) hiArgs emptyServer
             = (Inr (textResponse (IdNum 1) ''hello''), afterHi)"
    using chat_hi by (simp add: afterHi_def)
  have k: "sessionKey hiArgs = sessionKey s1Args"
    by (simp add: sessionKey_def hiArgs_def s1Args_def emptyArgs_def)
  have n: "chatSessions emptyServer (sessionKey unknownArgs) = None"
    by (simp add: emptyServer_def)
  have a: "summarizeConversation (replyEnv ''hello'') (IdNum 2) unknownArgs emptyServer
     = (Inr (errorResponse (IdNum 2) InvalidParams ''No chat history found for this session''), emptyServer)"
    using n summarize_conversation_round_trip
      [of emptyServer unknownArgs "replyEnv ''hello''" "IdNum 2" "IdNum 1" hiArgs emptyServer
          "textResponse (IdNum 1) ''hello''"]
    by simp
  have "\<exists>h. chatSessions afterHi (sessionKey s1Args) = Some h
         \<and> backendLog (snd (summarizeConversation (replyEnv ''hello'') (IdNum 2) s1Args afterHi))
             = backendLog afterHi @ [CallSend h (Some summaryPrompt)]
         \<and> fst (summarizeConversation (replyEnv ''hello'') (IdNum 2) s1Args afterHi)
             = (case fst (sendMessage (replyEnv ''hello'') h (Some summaryPrompt)) of
                  Inl err \<Rightarrow> Inl err
                | Inr t \<Rightarrow> Inr (textResponse (IdNum 2) t))"
    using c k summarize_conversation_round_trip
      [of afterHi s1Args "replyEnv ''hello''" "IdNum 2" "IdNum 1" hiArgs emptyServer
          "textResponse (IdNum 1) ''hello''"]
    by simp
  then have b: "fst (summarizeConversation (replyEnv ''hello'') (IdNum 2) s1Args afterHi)
       = Inr (textResponse (IdNum 2) ''hello'')
     \<and> backendLog (snd (summarizeConversation (replyEnv ''hello'') (IdNum 2) s1Args afterHi))
       = [CallSend [] (Some ''hi''),
          CallSend [Turn User ''hi'', Turn Model ''hello''] (Some summaryPrompt)]"
    by (auto simp add: afterHi_def sessionKey_def s1Args_def emptyArgs_def replyEnv_def)
  show ?thesis using a b c by simp
qed

lemma clearChatHistory_removes:
  "chatSessions (snd (clearChatHistory e i a s)) (sessionKey a) = None"
  by (simp add: clearChatHistory_def Let_def sessionKey_def)

lemma chat_new_session:
  assumes "chatSessions s (sessionKey c) = None"
  shows "fst (chat e j c s) = (case fst (sendMessage e (seedHistory (systemPrompt c)) (message c)) of
                                 Inl err \<Rightarrow> Inl err | Inr t \<Rightarrow> Inr (textResponse j t))"
    and "chatSessions (snd (chat e j c s)) (sessionKey c)
           = Some (snd (sendMessage e (seedHistory (systemPrompt c)) (message c)))"
    and "backendLog (snd (chat e j c s))
           = backendLog s @ [CallSend (seedHistory (systemPrompt c)) (message c)]"
  using assms
  by (auto simp add: chat_def Let_def sessionKey_def sessionSend_def split: prod.splits sum.splits)

lemma chat_existing_ignores_systemPrompt:
  assumes "chatSessions s (sessionKey c) = Some h"
  shows "chat e j (c\<lparr>systemPrompt := sp\<rparr>) s = chat e j c s"
  using assms by (simp add: chat_def Let_def sessionKey_def)

text \<open>
  Claim C9. \<^verbatim>\<open>clear_chat_history\<close> removes the session of its key. A \<^verbatim>\<open>chat\<close> on the
  same key after it starts a session from the seed history, which is empty without a
  system prompt and holds the system prompt and its acknowledgement with one, and sends
  the message on it; its response and the session it leaves are those of the same call
  on any state \<open>s0\<close> that has no session under the key. On a session that exists, the
  system prompt of a \<^verbatim>\<open>chat\<close> call changes nothing.
\<close>

theorem clear_chat_history_fresh_session:
  "(sessionKey c = sessionKey a \<longrightarrow>
      chatSessions (snd (clearChatHistory e i a s)) (sessionKey a) = None
      \<and> fst (chat e j c (snd (clearChatHistory e i a s)))
          = (case fst (sendMessage e (seedHistory (systemPrompt c)) (message c)) of
               Inl err \<Rightarrow> Inl err | Inr t \<Rightarrow> Inr (textResponse j t))
      \<and> chatSessions (snd (chat e j c (snd (clearChatHistory e i a s)))) (sessionKey a)
          = Some (snd (sendMessage e (seedHistory (systemPrompt c)) (message c)))
      \<and> backendLog (snd (chat e j c (snd (clearChatHistory e i a s))))
          = backendLog s @ [CallSend (seedHistory (systemPrompt c)) (message c)])
   \<and> (sessionKey c = sessionKey a \<and> chatSessions s0 (sessionKey a) = None \<longrightarrow>
      fst (chat e j c (snd (clearChatHistory e i a s))) = fst (chat e j c s0)
      \<and> chatSessions (snd (chat e j c (snd (clearChatHistory e i a s)))) (sessionKey a)
          = chatSessions (snd (chat e j c s0)) (sessionKey a))
   \<and> (chatSessions s (sessionKey c) = Some h \<longrightarrow>
      chat e j (c\<lparr>systemPrompt := sp\<rparr>) s = chat e j c s)
   \<and> seedHistory (Some (x # xs))
       = [Turn User (''System: '' @ x # xs), Turn Model ''Understood. I will follow these instructions.'']
   \<and> seedHistory None = []"
proof (intro conjI impI)
  assume k: "sessionKey c = sessionKey a"
  let ?s1 = "snd (clearChatHistory e i a s)"
  have n: "chatSessions ?s1 (sessionKey c) = None"
    using k clearChatHistory_removes [of e i a s] by simp
  show "chatSessions ?s1 (sessionKey a) = None"
    by (rule clearChatHistory_removes)
  show "fst (chat e j c ?s1)
          = (case fst (sendMessage e (seedHistory (systemPrompt c)) (message c)) of
               Inl err \<Rightarrow> Inl err | Inr t \<Rightarrow> Inr (textResponse j t))"
    using chat_new_session(1) [OF n] .
  show "chatSessions (snd (chat e j c ?s1)) (sessionKey a)
          = Some (snd (sendMessage e (seedHistory (systemPrompt c)) (message c)))"
    using chat_new_session(2) [OF n, of e j] k by simp
  have "backendLog ?s1 = backendLog s"
    by (simp add: clearChatHistory_def Let_def)
  then show "backendLog (snd (chat e j c ?s1))
          = backendLog s @ [CallSend (seedHistory (systemPrompt c)) (message c)]"
    using chat_new_session(3) [OF n, of e j] by simp
next
  assume h: "sessionKey c = sessionKey a \<and> chatSessions s0 (sessionKey a) = None"
  let ?s1 = "snd (clearChatHistory e i a s)"
  have n: "chatSessions ?s1 (sessionKey c) = None"
    using h clearChatHistory_removes [of e i a s] by simp
  have n0: "chatSessions s0 (sessionKey c) = None"
    using h by simp
  show "fst (chat e j c ?s1) = fst (chat e j c s0)"
    using chat_new_session(1) [OF n, of e j] chat_new_session(1) [OF n0, of e j] by simp
  show "chatSessions (snd (chat e j c ?s1)) (sessionKey a)
          = chatSessions (snd (chat e j c s0)) (sessionKey a)"
    using chat_new_session(2) [OF n, of e j] chat_new_session(2) [OF n0, of e j] h by simp
next
  assume "chatSessions s (sessionKey c) = Some h"
  then show "chat e j (c\<lparr>systemPrompt := sp\<rparr>) s = chat e j c s"
    by (rule chat_existing_ignores_systemPrompt)
next
  show "seedHistory (Some (x # xs))
       = [Turn User (''System: '' @ x # xs), Turn Model ''Understood. I will follow these instructions.'']"
    by (simp add: seedHistory_def)
  show "seedHistory None = []"
    by (simp add: seedHistory_def)
qed

text \<open>
  The theorem after the first exchange on \<^verbatim>\<open>s1\<close>: the history is cleared, and a
  \<^verbatim>\<open>chat\<close> with a system prompt then sends its message on the seeded history; without
  the clearing the same call behaves as one without system prompt.
\<close>

theorem clear_chat_history_fresh_session_witness:
  "chatSessions (snd (clearChatHistory (replyEnv ''Arr'') (IdNum 3) s1Args afterHi)) ''s1'' = None
   \<and> fst (chat (replyEnv ''Arr'') (IdNum 4) pirateArgs (snd (clearChatHistory (replyEnv ''Arr'') (IdNum 3) s1Args afterHi)))
       = Inr (textResponse (IdNum 4) ''Arr'')
   \<and> backendLog (snd (chat (replyEnv ''Arr'') (IdNum 4) pirateArgs (snd (clearChatHistory (replyEnv ''Arr'') (IdNum 3) s1Args afterHi))))
       = [CallSend [] (Some ''hi''),
          CallSend [Turn User ''System: Talk like a pirate'',
                    Turn Model ''Understood. I will follow these instructions.''] (Some ''hi'')]
   \<and> fst (chat (replyEnv ''Arr'') (IdNum 4) pirateArgs (snd (clearChatHistory (replyEnv ''Arr'') (IdNum 3) s1Args afterHi)))
       = fst (chat (replyEnv ''Arr'') (IdNum 4) pirateArgs emptyServer)
   \<and> chat (replyEnv ''Arr'') (IdNum 4) pirateArgs afterHi
       = chat (replyEnv ''Arr'') (IdNum 4) (pirateArgs\<lparr>systemPrompt := None\<rparr>) afterHi"
proof -
  have k: "sessionKey pirateArgs = sessionKey s1Args"
    by (simp add: sessionKey_def pirateArgs_def s1Args_def emptyArgs_def)
  have k2: "sessionKey s1Args = ''s1''"
    by (simp add: sessionKey_def s1Args_def emptyArgs_def)
  have n0: "chatSessions emptyServer (sessionKey s1Args) = None"
    by (simp add: emptyServer_def)
  have ex: "chatSessions afterHi (sessionKey (pirateArgs\<lparr>systemPrompt := None\<rparr>))
              = Some [Turn User ''hi'', Turn Model ''hello'']"
    by (simp add: afterHi_def sessionKey_def pirateArgs_def emptyArgs_def)
  have u: "pirateArgs\<lparr>systemPrompt := None, systemPrompt := Some ''Talk like a pirate''\<rparr> = pirateArgs"
    by (simp add: pirateArgs_def)
  note t1 = clear_chat_history_fresh_session
      [of pirateArgs s1Args "replyEnv ''Arr''" "IdNum 3" afterHi "IdNum 4" emptyServer
          "[Turn User ''hi'', Turn Model ''hello'']" "None" "CHR ''a''" "[]"]
  note t2 = clear_chat_history_fresh_session
      [of "pirateArgs\<lparr>systemPrompt := None\<rparr>" s1Args "replyEnv ''Arr''" "IdNum 3" afterHi "IdNum 4"
          emptyServer "[Turn User ''hi'', Turn Model ''hello'']" "Some ''Talk like a pirate''"
          "CHR ''a''" "[]"]
  have a: "chatSessions (snd (clearChatHistory (replyEnv ''Arr'') (IdNum 3) s1Args afterHi)) ''s1'' = None"
    using t1 k k2 by simp
  have b: "fst (chat (replyEnv ''Arr'') (IdNum 4) pirateArgs (snd (clearChatHistory (replyEnv ''Arr'') (IdNum 3) s1Args afterHi)))
       = Inr (textResponse (IdNum 4) ''Arr'')"
    using t1 k by (simp add: replyEnv_def)
  have c: "backendLog (snd (chat (replyEnv ''Arr'') (IdNum 4) pirateArgs (snd (clearChatHistory (replyEnv ''Arr'') (IdNum 3) s1Args afterHi))))
       = [CallSend [] (Some ''hi''),
          CallSend [Turn User ''System: Talk like a pirate'',
                    Turn Model ''Understood. I will follow these instructions.''] (Some ''hi'')]"
    using t1 k by (simp add: afterHi_def pirateArgs_def emptyArgs_def seedHistory_def)
  have d: "fst (chat (replyEnv ''Arr'') (IdNum 4) pirateArgs (snd (clearChatHistory (replyEnv ''Arr'') (IdNum 3) s1Args afterHi)))
       = fst (chat (replyEnv ''Arr'') (IdNum 4) pirateArgs emptyServer)"
    using t1 k n0 by blast
  have f: "chat (replyEnv ''Arr'') (IdNum 4) pirateArgs afterHi
       = chat (replyEnv ''Arr'') (IdNum 4) (pirateArgs\<lparr>systemPrompt := None\<rparr>) afterHi"
    using t2 ex u by simp
  show ?thesis using a b c d f by simp
qed

subsection \<open>The instruction of the OCR tool\<close>

text \<open>
  Claim C10. The \<^verbatim>\<open>prompt\<close> argument of \<^verbatim>\<open>extract_text_from_image\<close> has no effect:
  replacing it by anything, or removing it, gives the same outcome and the same state.
  The handler issues no backend call or exactly one, to the vision model, and the text
  part of that call is the fixed OCR instruction; only the image part comes from the
  caller.
\<close>

theorem extract_text_prompt_discarded:
  "extractTextFromImage e i (a\<lparr>prompt := p\<rparr>) s = extractTextFromImage e i a s
   \<and> extractTextFromImage e i a s = analyzeImage e i (a\<lparr>prompt := Some ocrPrompt\<rparr>) s
   \<and> (backendLog (snd (extractTextFromImage e i a s)) = backendLog s
      \<or> (\<exists>img. backendLog (snd (extractTextFromImage e i a s))
                 = backendLog s @ [CallGenerate VisionModel
                     \<lparr>parts = [TextPart ocrPrompt, img], generationConfig = None\<rparr>]))"
  by (auto simp add: extractTextFromImage_def analyzeImage_def visionGenerate_def callGenerate_def
      split: option.splits sum.splits prod.splits)

end
